theory Spec2Isabelle
  imports Main
begin

section \<open>Values, fact stores and rules\<close>

text \<open>
  The program is a small forward-chaining rule evaluator written in Python
  (\<^verbatim>\<open>src/index.py\<close>). A fact store is a \<^verbatim>\<open>Dict[str, object]\<close>; the values the
  program and its collaborators put there are booleans and category strings. The model
  keeps \<^verbatim>\<open>None\<close> and integers beside them, because the shipped conditions tell them
  apart: \<^verbatim>\<open>f.get(k)\<close> yields \<^verbatim>\<open>None\<close> for an absent key, and \<^verbatim>\<open>0 is False\<close> is false in
  Python although \<^verbatim>\<open>0 == False\<close> is true.

  A Python \<^verbatim>\<open>str\<close> is a sequence of code points. Every string literal of the rule set
  and of the fact construction lies in Latin-1, so a string is modelled as a \<^typ>\<open>string\<close> with
  one \<^typ>\<open>char\<close> per code point below 256 (\<open>CHR 0xED\<close> is the i with acute accent).
\<close>

datatype pyval = PyNone | PyBool bool | PyInt int | PyStr string

type_synonym fact_store = "string \<rightharpoonup> pyval"

text \<open>\<^verbatim>\<open>f.get(k)\<close>: the value stored under \<open>k\<close>, or \<^verbatim>\<open>None\<close> when the key is absent.\<close>

definition get :: "fact_store \<Rightarrow> string \<Rightarrow> pyval" where
  "get f k = (case f k of None \<Rightarrow> PyNone | Some v \<Rightarrow> v)"

text \<open>
  \<^verbatim>\<open>x is False\<close> and \<^verbatim>\<open>x is True\<close>: identity with the two boolean singletons. Only the
  boolean itself is identical to it.
\<close>

fun is_False :: "pyval \<Rightarrow> bool" where
  "is_False (PyBool b) = (\<not> b)"
| "is_False _ = False"

fun is_True :: "pyval \<Rightarrow> bool" where
  "is_True (PyBool b) = b"
| "is_True _ = False"

text \<open>
  \<^verbatim>\<open>x == y\<close> on these values: \<^verbatim>\<open>None\<close> equals only \<^verbatim>\<open>None\<close>, a boolean compares with
  an integer as 0 or 1, strings compare by content, and values of unrelated types are
  unequal.
\<close>

fun py_eq :: "pyval \<Rightarrow> pyval \<Rightarrow> bool" where
  "py_eq PyNone PyNone = True"
| "py_eq (PyBool a) (PyBool b) = (a = b)"
| "py_eq (PyBool a) (PyInt n) = ((if a then 1 else 0) = n)"
| "py_eq (PyInt m) (PyBool b) = (m = (if b then 1 else 0))"
| "py_eq (PyInt m) (PyInt n) = (m = n)"
| "py_eq (PyStr s) (PyStr t) = (s = t)"
| "py_eq _ _ = False"

text \<open>
  An exception: the name of its class, whether the class derives from \<^verbatim>\<open>Exception\<close>
  (\<^verbatim>\<open>KeyError\<close>, \<^verbatim>\<open>TypeError\<close>, \<^verbatim>\<open>AttributeError\<close> do; \<^verbatim>\<open>SystemExit\<close>,
  \<^verbatim>\<open>KeyboardInterrupt\<close> and \<^verbatim>\<open>GeneratorExit\<close> derive from \<^verbatim>\<open>BaseException\<close> only),
  and what \<^verbatim>\<open>str(e)\<close> does: it returns a text, or the \<^verbatim>\<open>__str__\<close> of the class raises an
  exception of its own.
\<close>

datatype pyexc = PyExc (exc_class: string) (is_Exception: bool) (exc_str: "pyexc + string")

text \<open>
  The dataclass \<^verbatim>\<open>Rule\<close>. The field \<open>check\<close> is an arbitrary Python callable that
  receives the dictionary itself, not a copy: it may return a boolean or raise, and it may
  change the dictionary. So a check maps the store to its outcome and the store it leaves.
\<close>

record Rule =
  name :: string
  check :: "fact_store \<Rightarrow> (pyexc + bool) \<times> fact_store"
  diagnosis :: string
  explanation :: string

section \<open>The inference engine\<close>

record ExpertSystem =
  rules :: "Rule list"
  facts :: fact_store

text \<open>
  The line printed by the exception handler of \<^verbatim>\<open>infer\<close>, for a rule and the text of
  the exception: \<^verbatim>\<open>f"(Advertencia) Error en la regla '{rule.name}': {e}"\<close>.
\<close>

definition warning :: "Rule \<Rightarrow> string \<Rightarrow> string" where
  "warning rule text_of_e =
     ''(Advertencia) Error en la regla '' @ [CHR 0x27] @ name rule @ [CHR 0x27] @ '': ''
       @ text_of_e"

text \<open>
  \<^verbatim>\<open>
  def infer(self):
      results = []
      for rule in self.rules:
          try:
              if rule.check(self.facts):
                  results.append((rule, rule.diagnosis))
          except Exception as e:
              print(f"(Advertencia) Error en la regla '{rule.name}': {e}")
      return results
  \<close>
  The loop carries the list \<open>results\<close>, the dictionary behind \<^verbatim>\<open>self.facts\<close> and the lines
  printed so far. It ends in one of two ways: it returns \<open>results\<close>, or an exception
  leaves \<^verbatim>\<open>infer\<close> and the rules that remain are not evaluated. An exception leaves
  \<^verbatim>\<open>infer\<close> in two cases. Its class does not derive from \<^verbatim>\<open>Exception\<close>, so that
  \<^verbatim>\<open>except Exception\<close> does not catch it. Or it is caught and the handler itself raises:
  the f-string calls \<^verbatim>\<open>str(e)\<close> inside the \<^verbatim>\<open>except\<close> block, where nothing catches what
  \<^verbatim>\<open>__str__\<close> raises. The console accepts every line written to it.
\<close>

fun infer_loop ::
  "Rule list \<Rightarrow> fact_store \<Rightarrow> string list \<Rightarrow> (Rule \<times> string) list
    \<Rightarrow> (pyexc + (Rule \<times> string) list) \<times> fact_store \<times> string list" where
  "infer_loop [] f out results = (Inr results, f, out)"
| "infer_loop (rule # rest) f out results =
     (case check rule f of
        (Inr b, f') \<Rightarrow>
          infer_loop rest f' out (if b then results @ [(rule, diagnosis rule)] else results)
      | (Inl e, f') \<Rightarrow>
          if is_Exception e then
            (case exc_str e of
               Inr text_of_e \<Rightarrow> infer_loop rest f' (out @ [warning rule text_of_e]) results
             | Inl e' \<Rightarrow> (Inl e', f', out))
          else (Inl e, f', out))"

definition infer ::
  "ExpertSystem \<Rightarrow> string list
    \<Rightarrow> (pyexc + (Rule \<times> string) list) \<times> fact_store \<times> string list" where
  "infer self out = infer_loop (rules self) (facts self) out []"


section \<open>The shipped rule set\<close>

text \<open>
  Each of the five lambdas of \<^verbatim>\<open>build_rules\<close> looks keys up with \<^verbatim>\<open>f.get\<close> and compares
  the values: it returns a boolean, and the dictionary it was given is the dictionary it
  leaves. Python's \<^verbatim>\<open>and\<close> of two booleans is their conjunction.
\<close>

definition build_rules :: "Rule list" where
  "build_rules =
    [ \<lparr> name = ''No arranca + tablero apagado'',
        check = (\<lambda>f. (Inr (is_False (get f ''arranca'') \<and> is_False (get f ''tablero'')), f)),
        diagnosis = ''bater'' @ [CHR 0xED] @ ''a descargada'',
        explanation = ''Si el auto no arranca y el tablero est'' @ [CHR 0xE1]
          @ '' apagado, suele ser bater'' @ [CHR 0xED] @ ''a descargada.'' \<rparr>,
      \<lparr> name = ''No arranca + tablero encendido'',
        check = (\<lambda>f. (Inr (is_False (get f ''arranca'') \<and> is_True (get f ''tablero'')), f)),
        diagnosis = ''fallo en el motor de arranque'',
        explanation = ''Si el tablero enciende pero el motor no gira, ''
          @ ''suele ser el motor de arranque o su circuito.'' \<rparr>,
      \<lparr> name = ''Se apaga al acelerar'',
        check = (\<lambda>f. (Inr (is_True (get f ''arranca'') \<and> is_True (get f ''apaga_al_acelerar'')), f)),
        diagnosis = ''problema en el suministro de combustible'',
        explanation = ''Apagarse al acelerar apunta a filtro tapado, bomba d''
          @ [CHR 0xE9] @ ''bil o inyecci'' @ [CHR 0xF3] @ ''n.'' \<rparr>,
      \<lparr> name = ''Humo negro'',
        check = (\<lambda>f. (Inr (py_eq (get f ''humo'') (PyStr ''negro'')), f)),
        diagnosis = ''mezcla rica de combustible'',
        explanation = ''El humo negro indica exceso de combustible en la mezcla ''
          @ ''aire/combustible.'' \<rparr>,
      \<lparr> name = ''Humo blanco constante'',
        check = (\<lambda>f. (Inr (py_eq (get f ''humo'') (PyStr ''blanco_constante'')), f)),
        diagnosis = ''falla en la junta de culata'',
        explanation = ''El humo blanco continuo puede ser refrigerante quem''
          @ [CHR 0xE1] @ ''ndose por da'' @ [CHR 0xF1] @ ''o en la junta de culata.'' \<rparr> ]"

section \<open>Fact construction: the interactive mode\<close>

text \<open>
  Standard input is the list of the lines still to be read. \<^verbatim>\<open>input()\<close> takes the first
  one, and raises \<^verbatim>\<open>EOFError\<close> when there is none. The prompts written to the console are
  not part of the model: only the answers decide the facts.
\<close>

definition EOFError :: pyexc where
  "EOFError = PyExc ''EOFError'' True (Inr ''EOF when reading a line'')"

text \<open>\<^verbatim>\<open>str.isspace\<close>, \<^verbatim>\<open>str.strip()\<close> and \<^verbatim>\<open>str.lower()\<close> on code points below 256.\<close>

definition isspace :: "char \<Rightarrow> bool" where
  "isspace c =
     (let n = (of_char c :: nat)
      in (9 \<le> n \<and> n \<le> 13) \<or> (28 \<le> n \<and> n \<le> 32) \<or> n = 133 \<or> n = 160)"

definition strip :: "string \<Rightarrow> string" where
  "strip s = rev (dropWhile isspace (rev (dropWhile isspace s)))"

definition lower_char :: "char \<Rightarrow> char" where
  "lower_char c =
     (let n = (of_char c :: nat)
      in if (65 \<le> n \<and> n \<le> 90) \<or> (192 \<le> n \<and> n \<le> 222 \<and> n \<noteq> 215)
         then char_of (n + 32) else c)"

definition lower :: "string \<Rightarrow> string" where
  "lower s = map lower_char s"

text \<open>\<^verbatim>\<open>s.startswith(p)\<close>.\<close>

definition startswith :: "string \<Rightarrow> string \<Rightarrow> bool" where
  "startswith s p = (take (length p) s = p)"

text \<open>
  \<^verbatim>\<open>
  def ask_yes_no(prompt):
      while True:
          ans = input(f"{prompt} [s/n]: ").strip().lower()
          if ans in ("s", "si", "s\xed", "y", "yes"): return True
          if ans in ("n", "no"): return False
          print(...)
  \<close>
  Every turn of the loop reads one line, so the loop is a recursion on the lines left;
  it ends with an answer or with \<^verbatim>\<open>EOFError\<close>.
\<close>

fun ask_yes_no :: "string list \<Rightarrow> (pyexc + bool) \<times> string list" where
  "ask_yes_no [] = (Inl EOFError, [])"
| "ask_yes_no (line # stdin) =
     (let ans = lower (strip line)
      in if List.member [''s'', ''si'', ''s'' @ [CHR 0xED], ''y'', ''yes''] ans then (Inr True, stdin)
         else if List.member [''n'', ''no''] ans then (Inr False, stdin)
         else ask_yes_no stdin)"

text \<open>\<^verbatim>\<open>str(n)\<close> for a natural number: its decimal digits.\<close>

function str_nat :: "nat \<Rightarrow> string" where
  "str_nat n =
     (if n < 10 then [char_of (48 + n)]
      else str_nat (n div 10) @ [char_of (48 + n mod 10)])"
  by pat_completeness auto
termination
  by (relation "measure id") auto

declare str_nat.simps [simp del]

text \<open>
  \<^verbatim>\<open>
  def ask_choice(prompt, options):
      opts = {str(i + 1): opt for i, opt in enumerate(options)}
      while True:
          ...
          ans = input(...).strip()
          if ans in opts: return opts[ans]
          print(...)
  \<close>
\<close>

definition choice_opts :: "string list \<Rightarrow> (string \<rightharpoonup> string)" where
  "choice_opts options = map_of (rev (map (\<lambda>(i, opt). (str_nat (i + 1), opt)) (enumerate 0 options)))"

fun ask_choice :: "string list \<Rightarrow> string list \<Rightarrow> (pyexc + string) \<times> string list" where
  "ask_choice options [] = (Inl EOFError, [])"
| "ask_choice options (line # stdin) =
     (case choice_opts options (strip line) of
        Some opt \<Rightarrow> (Inr opt, stdin)
      | None \<Rightarrow> ask_choice options stdin)"

text \<open>
  Sequencing of two steps that read standard input: an exception of the first step
  leaves the function at once, as an uncaught Python exception does.
\<close>

definition and_then ::
  "('s \<Rightarrow> (pyexc + 'a) \<times> 's) \<Rightarrow> ('a \<Rightarrow> 's \<Rightarrow> (pyexc + 'b) \<times> 's) \<Rightarrow> 's \<Rightarrow> (pyexc + 'b) \<times> 's" where
  "and_then step k s = (case step s of (Inl e, s') \<Rightarrow> (Inl e, s') | (Inr a, s') \<Rightarrow> k a s')"

definition return :: "'a \<Rightarrow> 's \<Rightarrow> (pyexc + 'a) \<times> 's" where
  "return a s = (Inr a, s)"

text \<open>\<^verbatim>\<open>d.setdefault(k, v)\<close>: stores \<open>v\<close> under \<open>k\<close> only when \<open>k\<close> is absent.\<close>

definition setdefault :: "fact_store \<Rightarrow> string \<Rightarrow> pyval \<Rightarrow> fact_store" where
  "setdefault d k v = (case d k of None \<Rightarrow> d(k \<mapsto> v) | Some _ \<Rightarrow> d)"

text \<open>
  The smoke colour chosen in the menu, mapped to the category stored under \<^verbatim>\<open>humo\<close>
  (the \<^verbatim>\<open>if/elif\<close> chain of \<^verbatim>\<open>run_interactive\<close>, in its order).
\<close>

definition humo_of_color :: "string \<Rightarrow> string" where
  "humo_of_color color =
     (if startswith (lower color) ''negro'' then ''negro''
      else if startswith (lower color) ''blanco (constante)'' then ''blanco_constante''
      else if startswith (lower color) ''blanco'' then ''blanco''
      else ''ninguno'')"

text \<open>
  The first part of \<^verbatim>\<open>run_interactive\<close>, up to the construction of the engine: the
  dictionary \<open>facts\<close> as the answers fill it in.
\<close>

definition interactive_facts :: "string list \<Rightarrow> (pyexc + fact_store) \<times> string list" where
  "interactive_facts =
     and_then ask_yes_no (\<lambda>arranca.
     and_then
       (if \<not> arranca then
          and_then ask_yes_no (\<lambda>tablero.
          return ([''arranca'' \<mapsto> PyBool arranca, ''tablero'' \<mapsto> PyBool tablero]))
        else
          and_then ask_yes_no (\<lambda>apaga.
          return (setdefault [''arranca'' \<mapsto> PyBool arranca, ''apaga_al_acelerar'' \<mapsto> PyBool apaga]
                    ''tablero'' (PyBool True))))
       (\<lambda>facts1.
     and_then ask_yes_no (\<lambda>hay_humo.
       if hay_humo then
         and_then
           (ask_choice [''Negro'', ''Blanco'', ''Blanco (constante)'', ''Ninguno/No seguro''])
           (\<lambda>color. return (facts1(''humo'' \<mapsto> PyStr (humo_of_color color))))
       else return (facts1(''humo'' \<mapsto> PyStr ''ninguno'')))))"

text \<open>\<^verbatim>\<open>es = ExpertSystem(build_rules(), facts)\<close>, when the questions have all been answered.\<close>

definition interactive_system :: "string list \<Rightarrow> (pyexc + ExpertSystem) \<times> string list" where
  "interactive_system =
     and_then interactive_facts (\<lambda>fs. return \<lparr> rules = build_rules, facts = fs \<rparr>)"

section \<open>Fact construction: the flag mode\<close>

text \<open>
  The namespace that \<^verbatim>\<open>parse_args\<close> returns: every flag is a string or \<^verbatim>\<open>None\<close> (its
  default). \<^verbatim>\<open>run_cli\<close> is modelled on any such namespace.
\<close>

record Namespace =
  modo :: "string option"
  arranca :: "string option"
  tablero :: "string option"
  apaga_al_acelerar :: "string option"
  humo :: "string option"

text \<open>\<^verbatim>\<open>{"si": True, "no": False}.get(flag, default)\<close>; \<^verbatim>\<open>None\<close> is not a key.\<close>

definition si_no :: "string \<rightharpoonup> bool" where
  "si_no = [''si'' \<mapsto> True, ''no'' \<mapsto> False]"

definition get_flag :: "(string \<rightharpoonup> bool) \<Rightarrow> string option \<Rightarrow> bool \<Rightarrow> bool" where
  "get_flag d flag dflt =
     (case flag of None \<Rightarrow> dflt | Some s \<Rightarrow> (case d s of None \<Rightarrow> dflt | Some b \<Rightarrow> b))"

text \<open>\<^verbatim>\<open>args.humo or "ninguno"\<close>: \<^verbatim>\<open>None\<close> and the empty string are falsy.\<close>

definition humo_or_ninguno :: "string option \<Rightarrow> string" where
  "humo_or_ninguno flag = (case flag of None \<Rightarrow> ''ninguno'' | Some s \<Rightarrow> if s = [] then ''ninguno'' else s)"

text \<open>
  \<^verbatim>\<open>
  arranca = {"si": True, "no": False}.get(args.arranca, True)
  tablero = {"si": True, "no": False}.get(args.tablero, True)
  apaga = {"si": True, "no": False}.get(args.apaga_al_acelerar, False)
  humo = args.humo or "ninguno"
  if arranca and args.tablero is None: tablero = True
  if not arranca and args.tablero is None: tablero = False
  facts = {"arranca": arranca, "tablero": tablero, "apaga_al_acelerar": apaga, "humo": humo}
  \<close>
\<close>

definition cli_facts :: "Namespace \<Rightarrow> fact_store" where
  "cli_facts args =
     (let arranca0 = get_flag si_no (arranca args) True;
          tablero0 = get_flag si_no (tablero args) True;
          apaga0 = get_flag si_no (apaga_al_acelerar args) False;
          humo0 = humo_or_ninguno (humo args);
          tablero1 = (if arranca0 \<and> tablero args = None then True else tablero0);
          tablero2 = (if \<not> arranca0 \<and> tablero args = None then False else tablero1)
      in [''arranca'' \<mapsto> PyBool arranca0, ''tablero'' \<mapsto> PyBool tablero2,
          ''apaga_al_acelerar'' \<mapsto> PyBool apaga0, ''humo'' \<mapsto> PyStr humo0])"

text \<open>\<^verbatim>\<open>es = ExpertSystem(build_rules(), facts)\<close> in \<^verbatim>\<open>run_cli\<close>.\<close>

definition cli_system :: "Namespace \<Rightarrow> ExpertSystem" where
  "cli_system args = \<lparr> rules = build_rules, facts = cli_facts args \<rparr>"

section \<open>Specification vocabulary\<close>

text \<open>
  The specification speaks of the rules "whose condition evaluates to true on the store".
  A check may change the store, so each rule is paired with the outcome that its check has
  on the store as the checks before it leave it. For rules that only read, this is the
  outcome on the store handed to the engine (lemma \<open>pure_evaluations\<close>).
\<close>

fun evaluations :: "Rule list \<Rightarrow> fact_store \<Rightarrow> (Rule \<times> (pyexc + bool)) list" where
  "evaluations [] f = []"
| "evaluations (rule # rest) f =
     (rule, fst (check rule f)) # evaluations rest (snd (check rule f))"

fun store_after :: "Rule list \<Rightarrow> fact_store \<Rightarrow> fact_store" where
  "store_after [] f = f"
| "store_after (rule # rest) f = store_after rest (snd (check rule f))"

text \<open>
  The exception, if any, with which an outcome makes the pass end: the exception
  itself when \<^verbatim>\<open>except Exception\<close> does not catch it, the one raised by its \<^verbatim>\<open>__str__\<close>
  when the handler cannot format it. The pass ends at the first such outcome.
\<close>

fun escapes :: "pyexc + bool \<Rightarrow> pyexc option" where
  "escapes (Inr b) = None"
| "escapes (Inl e) =
     (if is_Exception e then (case exc_str e of Inr text_of_e \<Rightarrow> None | Inl e' \<Rightarrow> Some e')
      else Some e)"

fun first_escape :: "(Rule \<times> (pyexc + bool)) list \<Rightarrow> pyexc option" where
  "first_escape [] = None"
| "first_escape ((r, res) # evs) =
     (case escapes res of Some e \<Rightarrow> Some e | None \<Rightarrow> first_escape evs)"

text \<open>The matches: the rules whose check returned \<^verbatim>\<open>True\<close>, each with its diagnosis.\<close>

definition matches_of :: "(Rule \<times> (pyexc + bool)) list \<Rightarrow> (Rule \<times> string) list" where
  "matches_of evs =
     map (\<lambda>(r, res). (r, diagnosis r)) (filter (\<lambda>(r, res). res = Inr True) evs)"

text \<open>The warnings: one line for each rule whose check raised, with the text of the exception.\<close>

definition warnings_of :: "(Rule \<times> (pyexc + bool)) list \<Rightarrow> string list" where
  "warnings_of evs =
     concat (map (\<lambda>(r, res). case res of
                                Inl e \<Rightarrow> [warning r (projr (exc_str e))]
                              | Inr b \<Rightarrow> []) evs)"

text \<open>
  The names of the rules in the result of an inference pass over the shipped rules
  (the pass over the shipped rules always returns, lemma \<open>build_rules_infer\<close>).
\<close>

definition fired :: "fact_store \<Rightarrow> string list" where
  "fired f =
     map (name \<circ> fst) (projr (fst (infer \<lparr> rules = build_rules, facts = f \<rparr> [])))"




section \<open>The loop of the engine\<close>




lemma infer_loop_eq:
  "first_escape (evaluations rs f) = None \<Longrightarrow>
     infer_loop rs f out acc =
       (Inr (acc @ matches_of (evaluations rs f)), store_after rs f,
        out @ warnings_of (evaluations rs f))"
proof (induction rs arbitrary: f out acc)
  case Nil
  show ?case by (simp add: matches_of_def warnings_of_def)
next
  case (Cons r rs)
  show ?case
  proof (cases "check r f")
    case (Pair res f')
    show ?thesis
    proof (cases res)
      case (Inl e)
      with Pair Cons.prems show ?thesis
        by (cases "exc_str e")
          (simp_all add: Cons.IH matches_of_def warnings_of_def split: if_splits)
    next
      case (Inr b)
      with Pair Cons.prems show ?thesis
        by (simp add: Cons.IH matches_of_def warnings_of_def)
    qed
  qed
qed


lemma pure_evaluations:
  "\<forall>r \<in> set rs. \<forall>g. snd (check r g) = g \<Longrightarrow>
     evaluations rs f = map (\<lambda>r. (r, fst (check r f))) rs"
  by (induction rs) simp_all


section \<open>Reading a key\<close>

lemma is_False_get: "is_False (get f k) \<longleftrightarrow> f k = Some (PyBool False)"
proof (cases "f k")
  case None
  then show ?thesis by (simp add: get_def)
next
  case (Some v)
  then show ?thesis by (cases v) (auto simp: get_def)
qed

lemma is_True_get: "is_True (get f k) \<longleftrightarrow> f k = Some (PyBool True)"
proof (cases "f k")
  case None
  then show ?thesis by (simp add: get_def)
next
  case (Some v)
  then show ?thesis by (cases v) (auto simp: get_def)
qed

lemma py_eq_get_str: "py_eq (get f k) (PyStr s) \<longleftrightarrow> f k = Some (PyStr s)"
proof (cases "f k")
  case None
  then show ?thesis by (simp add: get_def)
next
  case (Some v)
  then show ?thesis by (cases v) (auto simp: get_def)
qed


section \<open>The shipped rules on a store\<close>

lemma build_rules_pure: "\<forall>r \<in> set build_rules. \<forall>g. snd (check r g) = g"
  by (simp add: build_rules_def)

lemma build_rules_evaluations:
  "evaluations build_rules f = map (\<lambda>r. (r, fst (check r f))) build_rules"
  by (rule pure_evaluations) (rule build_rules_pure)

lemma build_rules_store_after: "store_after build_rules f = f"
  by (simp add: build_rules_def)

lemma build_rules_warnings: "warnings_of (evaluations build_rules f) = []"
  by (simp add: build_rules_def warnings_of_def)

lemma build_rules_no_escape: "first_escape (evaluations build_rules f) = None"
  by (simp add: build_rules_def)

lemma build_rules_infer:
  "infer \<lparr> rules = build_rules, facts = f \<rparr> out =
     (Inr (map (\<lambda>r. (r, diagnosis r)) (filter (\<lambda>r. fst (check r f) = Inr True) build_rules)),
      f, out)"
proof -
  have "matches_of (evaluations build_rules f) =
      map (\<lambda>r. (r, diagnosis r)) (filter (\<lambda>r. fst (check r f) = Inr True) build_rules)"
    by (simp add: matches_of_def build_rules_evaluations filter_map comp_def)
  then show ?thesis
    by (simp add: infer_def infer_loop_eq [OF build_rules_no_escape]
        build_rules_store_after build_rules_warnings)
qed

lemma fired_iff:
  "n \<in> set (fired f) \<longleftrightarrow>
     (n = ''No arranca + tablero apagado''
        \<and> f ''arranca'' = Some (PyBool False) \<and> f ''tablero'' = Some (PyBool False))
   \<or> (n = ''No arranca + tablero encendido''
        \<and> f ''arranca'' = Some (PyBool False) \<and> f ''tablero'' = Some (PyBool True))
   \<or> (n = ''Se apaga al acelerar''
        \<and> f ''arranca'' = Some (PyBool True) \<and> f ''apaga_al_acelerar'' = Some (PyBool True))
   \<or> (n = ''Humo negro'' \<and> f ''humo'' = Some (PyStr ''negro''))
   \<or> (n = ''Humo blanco constante'' \<and> f ''humo'' = Some (PyStr ''blanco_constante''))"
proof -
  have "set (fired f) = name ` {r \<in> set build_rules. fst (check r f) = Inr True}"
    by (simp add: fired_def build_rules_infer image_image comp_def)
  also have "n \<in> \<dots> \<longleftrightarrow> (\<exists>r \<in> set build_rules. fst (check r f) = Inr True \<and> n = name r)"
    by blast
  also have "\<dots> \<longleftrightarrow>
     (n = ''No arranca + tablero apagado''
        \<and> f ''arranca'' = Some (PyBool False) \<and> f ''tablero'' = Some (PyBool False))
   \<or> (n = ''No arranca + tablero encendido''
        \<and> f ''arranca'' = Some (PyBool False) \<and> f ''tablero'' = Some (PyBool True))
   \<or> (n = ''Se apaga al acelerar''
        \<and> f ''arranca'' = Some (PyBool True) \<and> f ''apaga_al_acelerar'' = Some (PyBool True))
   \<or> (n = ''Humo negro'' \<and> f ''humo'' = Some (PyStr ''negro''))
   \<or> (n = ''Humo blanco constante'' \<and> f ''humo'' = Some (PyStr ''blanco_constante''))"
    unfolding build_rules_def
    by (simp add: is_False_get is_True_get py_eq_get_str conj_commute cong: conj_cong)
  finally show ?thesis .
qed

lemma fired_names:
  "map (name \<circ> fst) (projr (fst (infer \<lparr> rules = build_rules, facts = f \<rparr> out))) = fired f"
  by (simp add: fired_def build_rules_infer)

lemma infer_returns: "\<not> isl (fst (infer \<lparr> rules = build_rules, facts = f \<rparr> out))"
  by (simp add: build_rules_infer)

section \<open>Claims about the engine\<close>






text \<open>
  C7. Inference over the shipped rules never changes the fact store: the store after
  the pass is the store handed to the engine, because each of the five conditions leaves
  the store it reads as it was.
\<close>

theorem infer_keeps_store:
  "fst (snd (infer \<lparr> rules = build_rules, facts = f \<rparr> out)) = f
   \<and> map (\<lambda>r. snd (check r f)) build_rules = [f, f, f, f, f]"
  by (simp add: build_rules_infer) (simp add: build_rules_def)

text \<open>
  C8. Inference over the shipped rules is idempotent: the first pass returns, and a second
  pass, run on the store and the console as the first pass left them, returns the same
  ordered result as the first.
\<close>

theorem infer_twice:
  "fst (infer \<lparr> rules = build_rules,
                facts = fst (snd (infer \<lparr> rules = build_rules, facts = f \<rparr> out)) \<rparr>
          (snd (snd (infer \<lparr> rules = build_rules, facts = f \<rparr> out))))
   = fst (infer \<lparr> rules = build_rules, facts = f \<rparr> out)
   \<and> \<not> isl (fst (infer \<lparr> rules = build_rules, facts = f \<rparr> out))"
  by (simp add: build_rules_infer)

section \<open>Claims about the shipped rule set\<close>

text \<open>
  C2. \<open>build_rules\<close> takes no input and is one fixed list of exactly five rules, in the
  order of the table, and the condition of each is the one of the table, read as exact
  equality of the stored value: the first holds if and only if the value under
  \<open>arranca\<close> is the boolean false and the value under \<open>tablero\<close> is the boolean
  false, and so on for the others. An absent key reads as \<^verbatim>\<open>None\<close>, which is neither the
  boolean true nor the boolean false, and equals no boolean and no category string.
\<close>

theorem build_rules_table:
  "length build_rules = 5
   \<and> map name build_rules =
       [''No arranca + tablero apagado'', ''No arranca + tablero encendido'',
        ''Se apaga al acelerar'', ''Humo negro'', ''Humo blanco constante'']
   \<and> map diagnosis build_rules =
       [''bater'' @ [CHR 0xED] @ ''a descargada'', ''fallo en el motor de arranque'',
        ''problema en el suministro de combustible'', ''mezcla rica de combustible'',
        ''falla en la junta de culata'']
   \<and> map (\<lambda>r. check r f) build_rules =
       [(Inr (f ''arranca'' = Some (PyBool False) \<and> f ''tablero'' = Some (PyBool False)), f),
        (Inr (f ''arranca'' = Some (PyBool False) \<and> f ''tablero'' = Some (PyBool True)), f),
        (Inr (f ''arranca'' = Some (PyBool True)
              \<and> f ''apaga_al_acelerar'' = Some (PyBool True)), f),
        (Inr (f ''humo'' = Some (PyStr ''negro'')), f),
        (Inr (f ''humo'' = Some (PyStr ''blanco_constante'')), f)]
   \<and> get (f(k := None)) k = PyNone
   \<and> \<not> is_True PyNone \<and> \<not> is_False PyNone
   \<and> \<not> py_eq PyNone (PyBool b) \<and> \<not> py_eq PyNone (PyStr s)"
proof -
  have "map (\<lambda>r. check r f) build_rules =
       [(Inr (f ''arranca'' = Some (PyBool False) \<and> f ''tablero'' = Some (PyBool False)), f),
        (Inr (f ''arranca'' = Some (PyBool False) \<and> f ''tablero'' = Some (PyBool True)), f),
        (Inr (f ''arranca'' = Some (PyBool True)
              \<and> f ''apaga_al_acelerar'' = Some (PyBool True)), f),
        (Inr (f ''humo'' = Some (PyStr ''negro'')), f),
        (Inr (f ''humo'' = Some (PyStr ''blanco_constante'')), f)]"
    by (simp add: build_rules_def is_False_get is_True_get py_eq_get_str)
  moreover have "length build_rules = 5"
    by (simp add: build_rules_def)
  moreover have "map name build_rules =
       [''No arranca + tablero apagado'', ''No arranca + tablero encendido'',
        ''Se apaga al acelerar'', ''Humo negro'', ''Humo blanco constante'']"
    by (simp add: build_rules_def)
  moreover have "map diagnosis build_rules =
       [''bater'' @ [CHR 0xED] @ ''a descargada'', ''fallo en el motor de arranque'',
        ''problema en el suministro de combustible'', ''mezcla rica de combustible'',
        ''falla en la junta de culata'']"
    by (simp add: build_rules_def)
  moreover have "get (f(k := None)) k = PyNone"
    by (simp add: get_def)
  ultimately show ?thesis by simp
qed

theorem build_rules_table_witness:
  "check (build_rules ! 0) [''arranca'' \<mapsto> PyBool False, ''tablero'' \<mapsto> PyBool False]
     = (Inr True, [''arranca'' \<mapsto> PyBool False, ''tablero'' \<mapsto> PyBool False])
   \<and> check (build_rules ! 0) [''arranca'' \<mapsto> PyInt 0, ''tablero'' \<mapsto> PyBool False]
     = (Inr False, [''arranca'' \<mapsto> PyInt 0, ''tablero'' \<mapsto> PyBool False])
   \<and> check (build_rules ! 0) [''tablero'' \<mapsto> PyBool False]
     = (Inr False, [''tablero'' \<mapsto> PyBool False])"
proof -
  have nth0: "check (build_rules ! 0) g = hd (map (\<lambda>r. check r g) build_rules)" for g
    by (simp add: build_rules_def)
  show ?thesis
    using build_rules_table [of "[''arranca'' \<mapsto> PyBool False, ''tablero'' \<mapsto> PyBool False]"]
      build_rules_table [of "[''arranca'' \<mapsto> PyInt 0, ''tablero'' \<mapsto> PyBool False]"]
      build_rules_table [of "[''tablero'' \<mapsto> PyBool False]"]
    by (simp add: nth0)
qed

text \<open>
  C4. For every fact store in which the key \<open>humo\<close> is absent, the pass over the shipped
  rules raises nothing (each of the five checks returns, no warning is printed, the
  console is as it was, and the pass returns) and its result holds neither the match of
  \<open>Humo negro\<close> nor the match of \<open>Humo blanco constante\<close>.
\<close>

theorem missing_humo:
  assumes "f ''humo'' = None"
  shows "map (\<lambda>r. isl (fst (check r f))) build_rules = [False, False, False, False, False]
    \<and> snd (snd (infer \<lparr> rules = build_rules, facts = f \<rparr> out)) = out
    \<and> \<not> isl (fst (infer \<lparr> rules = build_rules, facts = f \<rparr> out))
    \<and> ''Humo negro''
        \<notin> set (map (name \<circ> fst) (projr (fst (infer \<lparr> rules = build_rules, facts = f \<rparr> out))))
    \<and> ''Humo blanco constante''
        \<notin> set (map (name \<circ> fst) (projr (fst (infer \<lparr> rules = build_rules, facts = f \<rparr> out))))"
proof (intro conjI)
  show "map (\<lambda>r. isl (fst (check r f))) build_rules = [False, False, False, False, False]"
    by (simp add: build_rules_def)
  show "snd (snd (infer \<lparr> rules = build_rules, facts = f \<rparr> out)) = out"
    by (simp add: build_rules_infer)
  show "\<not> isl (fst (infer \<lparr> rules = build_rules, facts = f \<rparr> out))"
    by (rule infer_returns)
  show "''Humo negro''
        \<notin> set (map (name \<circ> fst) (projr (fst (infer \<lparr> rules = build_rules, facts = f \<rparr> out))))"
    using assms by (simp add: fired_names fired_iff)
  show "''Humo blanco constante''
        \<notin> set (map (name \<circ> fst) (projr (fst (infer \<lparr> rules = build_rules, facts = f \<rparr> out))))"
    using assms by (simp add: fired_names fired_iff)
qed

theorem missing_humo_witness:
  "map (\<lambda>r. isl (fst (check r [''arranca'' \<mapsto> PyBool True, ''tablero'' \<mapsto> PyBool True])))
       build_rules = [False, False, False, False, False]
   \<and> snd (snd (infer \<lparr> rules = build_rules,
             facts = [''arranca'' \<mapsto> PyBool True, ''tablero'' \<mapsto> PyBool True] \<rparr> [])) = []
   \<and> \<not> isl (fst (infer \<lparr> rules = build_rules,
             facts = [''arranca'' \<mapsto> PyBool True, ''tablero'' \<mapsto> PyBool True] \<rparr> []))
   \<and> ''Humo negro''
       \<notin> set (map (name \<circ> fst) (projr (fst (infer \<lparr> rules = build_rules,
             facts = [''arranca'' \<mapsto> PyBool True, ''tablero'' \<mapsto> PyBool True] \<rparr> []))))
   \<and> ''Humo blanco constante''
       \<notin> set (map (name \<circ> fst) (projr (fst (infer \<lparr> rules = build_rules,
             facts = [''arranca'' \<mapsto> PyBool True, ''tablero'' \<mapsto> PyBool True] \<rparr> []))))"
proof -
  have h: "[''arranca'' \<mapsto> PyBool True, ''tablero'' \<mapsto> PyBool True] ''humo'' = None"
    by simp
  show ?thesis
    by (rule missing_humo
        [of "[''arranca'' \<mapsto> PyBool True, ''tablero'' \<mapsto> PyBool True]" "[]", OF h])
qed

text \<open>
  C5. For every fact store in which \<open>humo\<close> is the string \<^verbatim>\<open>"blanco"\<close>, the pass over the
  shipped rules returns and yields no match of a smoke rule: neither \<open>Humo negro\<close> nor
  \<open>Humo blanco constante\<close> (the head-gasket rule) is in the result.
\<close>

theorem plain_blanco:
  assumes "f ''humo'' = Some (PyStr ''blanco'')"
  shows "\<not> isl (fst (infer \<lparr> rules = build_rules, facts = f \<rparr> out))
    \<and> ''Humo negro''
        \<notin> set (map (name \<circ> fst) (projr (fst (infer \<lparr> rules = build_rules, facts = f \<rparr> out))))
    \<and> ''Humo blanco constante''
        \<notin> set (map (name \<circ> fst) (projr (fst (infer \<lparr> rules = build_rules, facts = f \<rparr> out))))"
  using assms by (simp add: infer_returns fired_names fired_iff)

theorem plain_blanco_witness:
  "\<not> isl (fst (infer \<lparr> rules = build_rules,
             facts = [''arranca'' \<mapsto> PyBool True, ''humo'' \<mapsto> PyStr ''blanco''] \<rparr> []))
   \<and> ''Humo negro''
       \<notin> set (map (name \<circ> fst) (projr (fst (infer \<lparr> rules = build_rules,
             facts = [''arranca'' \<mapsto> PyBool True, ''humo'' \<mapsto> PyStr ''blanco''] \<rparr> []))))
   \<and> ''Humo blanco constante''
       \<notin> set (map (name \<circ> fst) (projr (fst (infer \<lparr> rules = build_rules,
             facts = [''arranca'' \<mapsto> PyBool True, ''humo'' \<mapsto> PyStr ''blanco''] \<rparr> []))))"
proof -
  have h: "[''arranca'' \<mapsto> PyBool True, ''humo'' \<mapsto> PyStr ''blanco''] ''humo''
             = Some (PyStr ''blanco'')"
    by simp
  show ?thesis
    by (rule plain_blanco
        [of "[''arranca'' \<mapsto> PyBool True, ''humo'' \<mapsto> PyStr ''blanco'']" "[]", OF h])
qed

text \<open>
  C10. For every fact store, the pass over the shipped rules returns, and its result never
  holds a no-start match (\<open>No arranca + tablero apagado\<close> or
  \<open>No arranca + tablero encendido\<close>) together with the match of \<open>Se apaga al acelerar\<close>,
  and never holds both no-start matches: a no-start rule fires only when \<open>arranca\<close> is
  the boolean false, the stall rule only when it is the boolean true.
\<close>

theorem arranca_exclusive:
  "\<not> isl (fst (infer \<lparr> rules = build_rules, facts = f \<rparr> out))
   \<and> \<not> (''No arranca + tablero apagado''
        \<in> set (map (name \<circ> fst) (projr (fst (infer \<lparr> rules = build_rules, facts = f \<rparr> out))))
      \<and> ''Se apaga al acelerar''
        \<in> set (map (name \<circ> fst) (projr (fst (infer \<lparr> rules = build_rules, facts = f \<rparr> out)))))
   \<and> \<not> (''No arranca + tablero encendido''
        \<in> set (map (name \<circ> fst) (projr (fst (infer \<lparr> rules = build_rules, facts = f \<rparr> out))))
      \<and> ''Se apaga al acelerar''
        \<in> set (map (name \<circ> fst) (projr (fst (infer \<lparr> rules = build_rules, facts = f \<rparr> out)))))
   \<and> \<not> (''No arranca + tablero apagado''
        \<in> set (map (name \<circ> fst) (projr (fst (infer \<lparr> rules = build_rules, facts = f \<rparr> out))))
      \<and> ''No arranca + tablero encendido''
        \<in> set (map (name \<circ> fst) (projr (fst (infer \<lparr> rules = build_rules, facts = f \<rparr> out)))))
   \<and> ((''No arranca + tablero apagado''
        \<in> set (map (name \<circ> fst) (projr (fst (infer \<lparr> rules = build_rules, facts = f \<rparr> out))))
      \<or> ''No arranca + tablero encendido''
        \<in> set (map (name \<circ> fst) (projr (fst (infer \<lparr> rules = build_rules, facts = f \<rparr> out)))))
      \<longrightarrow> f ''arranca'' = Some (PyBool False))
   \<and> (''Se apaga al acelerar''
        \<in> set (map (name \<circ> fst) (projr (fst (infer \<lparr> rules = build_rules, facts = f \<rparr> out))))
      \<longrightarrow> f ''arranca'' = Some (PyBool True))"
  by (simp add: infer_returns fired_names fired_iff)

theorem arranca_exclusive_witness:
  "''No arranca + tablero apagado''
      \<in> set (map (name \<circ> fst) (projr (fst (infer \<lparr> rules = build_rules,
             facts = [''arranca'' \<mapsto> PyBool False, ''tablero'' \<mapsto> PyBool False,
                      ''apaga_al_acelerar'' \<mapsto> PyBool True] \<rparr> []))))
   \<and> ''Se apaga al acelerar''
      \<notin> set (map (name \<circ> fst) (projr (fst (infer \<lparr> rules = build_rules,
             facts = [''arranca'' \<mapsto> PyBool False, ''tablero'' \<mapsto> PyBool False,
                      ''apaga_al_acelerar'' \<mapsto> PyBool True] \<rparr> []))))
   \<and> ''Se apaga al acelerar''
      \<in> set (map (name \<circ> fst) (projr (fst (infer \<lparr> rules = build_rules,
             facts = [''arranca'' \<mapsto> PyBool True, ''tablero'' \<mapsto> PyBool False,
                      ''apaga_al_acelerar'' \<mapsto> PyBool True] \<rparr> []))))
   \<and> ''No arranca + tablero apagado''
      \<notin> set (map (name \<circ> fst) (projr (fst (infer \<lparr> rules = build_rules,
             facts = [''arranca'' \<mapsto> PyBool True, ''tablero'' \<mapsto> PyBool False,
                      ''apaga_al_acelerar'' \<mapsto> PyBool True] \<rparr> []))))"
proof -
  let ?f = "[''arranca'' \<mapsto> PyBool False, ''tablero'' \<mapsto> PyBool False,
             ''apaga_al_acelerar'' \<mapsto> PyBool True]"
  let ?g = "[''arranca'' \<mapsto> PyBool True, ''tablero'' \<mapsto> PyBool False,
             ''apaga_al_acelerar'' \<mapsto> PyBool True]"
  have a: "''No arranca + tablero apagado''
      \<in> set (map (name \<circ> fst) (projr (fst (infer \<lparr> rules = build_rules, facts = ?f \<rparr> []))))"
    by (simp add: fired_names fired_iff)
  have b: "''Se apaga al acelerar''
      \<in> set (map (name \<circ> fst) (projr (fst (infer \<lparr> rules = build_rules, facts = ?g \<rparr> []))))"
    by (simp add: fired_names fired_iff)
  show ?thesis
    using a b arranca_exclusive [of ?f "[]"] arranca_exclusive [of ?g "[]"] by blast
qed

section \<open>Claims about fact construction\<close>

lemma cli_facts_keys:
  "dom (cli_facts args) = {''arranca'', ''tablero'', ''apaga_al_acelerar'', ''humo''}"
  by (auto simp: cli_facts_def Let_def)

lemma cli_system_keys:
  "rules (cli_system args) = build_rules
   \<and> dom (facts (cli_system args)) = {''arranca'', ''tablero'', ''apaga_al_acelerar'', ''humo''}"
  by (simp add: cli_system_def cli_facts_keys)

lemma humo_of_color_options:
  "map humo_of_color [''Negro'', ''Blanco'', ''Blanco (constante)'', ''Ninguno/No seguro'']
     = [''negro'', ''blanco'', ''blanco_constante'', ''ninguno'']"
  by code_simp

lemma ask_yes_no_examples:
  "ask_yes_no ['' S'' @ [CHR 0xCD] @ '' ''] = (Inr True, [])
   \<and> ask_yes_no [''tal vez'', ''NO'', ''s''] = (Inr False, [''s''])
   \<and> ask_yes_no [''x''] = (Inl EOFError, [])"
  by code_simp

lemma interactive_facts_keys:
  assumes "interactive_facts stdin = (Inr fs, rest)"
  shows "{''arranca'', ''tablero'', ''humo''} \<subseteq> dom fs
    \<and> (''apaga_al_acelerar'' \<in> dom fs \<longleftrightarrow> fs ''arranca'' = Some (PyBool True))"
  using assms
  by (auto simp: interactive_facts_def and_then_def return_def setdefault_def
      split: prod.splits sum.splits if_splits)

text \<open>
  C9. The defaults of the flag mode: without the flag, \<open>arranca\<close> is true,
  \<open>apaga_al_acelerar\<close> is false and \<open>humo\<close> is \<^verbatim>\<open>"ninguno"\<close>; without the flag
  \<open>tablero\<close>, the fact \<open>tablero\<close> is false when \<open>arranca\<close> is false and true when
  \<open>arranca\<close> is true.
\<close>

theorem run_cli_defaults:
  "(arranca args = None \<longrightarrow> cli_facts args ''arranca'' = Some (PyBool True))
   \<and> (apaga_al_acelerar args = None \<longrightarrow>
        cli_facts args ''apaga_al_acelerar'' = Some (PyBool False))
   \<and> (humo args = None \<longrightarrow> cli_facts args ''humo'' = Some (PyStr ''ninguno''))
   \<and> (tablero args = None \<and> cli_facts args ''arranca'' = Some (PyBool False) \<longrightarrow>
        cli_facts args ''tablero'' = Some (PyBool False))
   \<and> (tablero args = None \<and> cli_facts args ''arranca'' = Some (PyBool True) \<longrightarrow>
        cli_facts args ''tablero'' = Some (PyBool True))"
  by (simp add: cli_facts_def Let_def get_flag_def humo_or_ninguno_def)

theorem run_cli_defaults_witness:
  "cli_facts \<lparr> modo = None, arranca = None, tablero = None, apaga_al_acelerar = None,
               humo = None \<rparr>
     = [''arranca'' \<mapsto> PyBool True, ''tablero'' \<mapsto> PyBool True,
        ''apaga_al_acelerar'' \<mapsto> PyBool False, ''humo'' \<mapsto> PyStr ''ninguno'']
   \<and> cli_facts \<lparr> modo = Some ''cli'', arranca = Some ''no'', tablero = None,
                 apaga_al_acelerar = None, humo = None \<rparr> ''tablero'' = Some (PyBool False)"
proof -
  let ?a = "\<lparr> modo = None, arranca = None, tablero = None, apaga_al_acelerar = None,
             humo = None \<rparr>"
  let ?b = "\<lparr> modo = Some ''cli'', arranca = Some ''no'', tablero = None,
             apaga_al_acelerar = None, humo = None \<rparr>"
  have b: "cli_facts ?b ''arranca'' = Some (PyBool False)"
    by (simp add: cli_facts_def Let_def get_flag_def si_no_def)
  have "cli_facts ?b ''tablero'' = Some (PyBool False)"
    using run_cli_defaults [of ?b] b by simp
  moreover have "cli_facts ?a ''arranca'' = Some (PyBool True)
      \<and> cli_facts ?a ''apaga_al_acelerar'' = Some (PyBool False)
      \<and> cli_facts ?a ''humo'' = Some (PyStr ''ninguno'')
      \<and> cli_facts ?a ''tablero'' = Some (PyBool True)"
    using run_cli_defaults [of ?a] by simp
  moreover have "cli_facts ?a
      = [''arranca'' \<mapsto> PyBool True, ''tablero'' \<mapsto> PyBool True,
         ''apaga_al_acelerar'' \<mapsto> PyBool False, ''humo'' \<mapsto> PyStr ''ninguno'']"
    by (simp add: cli_facts_def Let_def get_flag_def humo_or_ninguno_def)
  ultimately show ?thesis by simp
qed

text \<open>
  C6. The claim is that both modes hand the engine a store with all four keys. The flag
  mode does (lemma \<open>cli_system_keys\<close>). The interactive mode does not when the first
  answer is no: with the answers \<open>n\<close>, \<open>n\<close>, \<open>n\<close> the engine is built on a store
  with the keys \<open>arranca\<close>, \<open>tablero\<close> and \<open>humo\<close> only, and \<open>apaga_al_acelerar\<close>
  is absent.
\<close>

theorem interactive_misses_key:
  "interactive_system [''n'', ''n'', ''n''] =
     (Inr \<lparr> rules = build_rules,
            facts = [''arranca'' \<mapsto> PyBool False, ''tablero'' \<mapsto> PyBool False,
                     ''humo'' \<mapsto> PyStr ''ninguno''] \<rparr>, [])
   \<and> ''apaga_al_acelerar''
       \<notin> dom [''arranca'' \<mapsto> PyBool False, ''tablero'' \<mapsto> PyBool False,
                ''humo'' \<mapsto> PyStr ''ninguno'']"
proof -
  have n: "ask_yes_no (''n'' # rest) = (Inr False, rest)" for rest
    by (simp add: strip_def lower_def lower_char_def isspace_def)
  show ?thesis
    by (simp add: interactive_system_def interactive_facts_def and_then_def return_def n
        del: ask_yes_no.simps)
qed

end
